theory Spec2Isabelle
  imports Complex_Main "HOL-Library.Word"
begin

unbundle bit_operations_syntax

section \<open>JavaScript strings and numbers\<close>

text \<open>
  A JavaScript string is a sequence of UTF-16 code units; \<open>length\<close> counts code units.
  The model keeps each code unit as a natural number. \<open>js\<close> turns an ASCII literal
  into such a sequence.
\<close>

type_synonym jsstring = "nat list"

definition js :: "string \<Rightarrow> jsstring" where
  "js s = map of_char s"

text \<open>
  The code units that \<open>trim\<close>, \<open>parseInt\<close> and the regular expression class
  \<open>\s\<close> treat as white space (WhiteSpace and LineTerminator of ECMAScript).
\<close>

definition isWhiteSpace :: "nat \<Rightarrow> bool" where
  "isWhiteSpace c \<longleftrightarrow>
     (9 \<le> c \<and> c \<le> 13) \<or> c = 32 \<or> c = 160 \<or> c = 5760 \<or> (8192 \<le> c \<and> c \<le> 8202) \<or>
     c = 8232 \<or> c = 8233 \<or> c = 8239 \<or> c = 8287 \<or> c = 12288 \<or> c = 65279"

definition isDigit :: "nat \<Rightarrow> bool" where
  "isDigit c \<longleftrightarrow> 48 \<le> c \<and> c \<le> 57"

definition trim :: "jsstring \<Rightarrow> jsstring" where
  "trim s = rev (dropWhile isWhiteSpace (rev (dropWhile isWhiteSpace s)))"

text \<open>\<open>s.includes(k)\<close>: \<open>k\<close> occurs in \<open>s\<close> as a contiguous block.\<close>

primrec str_includes :: "jsstring \<Rightarrow> jsstring \<Rightarrow> bool" where
  "str_includes [] k = (k = [])"
| "str_includes (c # cs) k = (take (length k) (c # cs) = k \<or> str_includes cs k)"

text \<open>\<open>s.split(sep)\<close> for a separator of one code unit; the result is never empty.\<close>

primrec split :: "nat \<Rightarrow> jsstring \<Rightarrow> jsstring list" where
  "split sep [] = [[]]"
| "split sep (c # cs) =
     (if c = sep then [] # split sep cs
      else case split sep cs of
             [] \<Rightarrow> [[c]]
           | part # parts \<Rightarrow> (c # part) # parts)"

text \<open>
  \<open>parseInt(s, 10)\<close>: leading white space is skipped, one sign is accepted, then the
  longest run of decimal digits is read and \<^emph>\<open>whatever follows is ignored\<close>. No digit at
  all gives \<open>NaN\<close>, here \<open>None\<close>. An argument that is \<open>undefined\<close> is read as the text
  \<open>undefined\<close>, which has no digit.
\<close>

definition digitsValue :: "jsstring \<Rightarrow> nat" where
  "digitsValue ds = foldl (\<lambda>acc d. 10 * acc + (d - 48)) 0 ds"

definition parseInt :: "jsstring \<Rightarrow> int option" where
  "parseInt s =
     (let t = dropWhile isWhiteSpace s;
          neg = (t \<noteq> [] \<and> hd t = 45);
          u = (if t \<noteq> [] \<and> (hd t = 45 \<or> hd t = 43) then tl t else t);
          ds = takeWhile isDigit u
      in if ds = [] then None
         else Some (if neg then - int (digitsValue ds) else int (digitsValue ds)))"

definition parseIntOpt :: "jsstring option \<Rightarrow> int option" where
  "parseIntOpt m = (case m of None \<Rightarrow> None | Some s \<Rightarrow> parseInt s)"

text \<open>
  \<open>toLowerCase\<close>: the Latin capitals move down by 32. Two further code units have a
  lower case that contains an ASCII letter (the Kelvin sign, and the dotted capital I,
  which becomes \<open>i\<close> followed by a combining dot); every other code unit is kept, since
  its lower case is never compared with anything but ASCII text in this program.
\<close>

definition toLowerCase :: "jsstring \<Rightarrow> jsstring" where
  "toLowerCase s =
     concat (map (\<lambda>c. if 65 \<le> c \<and> c \<le> 90 then [c + 32]
                        else if c = 8490 then [107]
                        else if c = 304 then [105, 775]
                        else [c]) s)"

text \<open>
  A JavaScript number is a double. \<open>Fin r\<close> stands for the double that \<open>r\<close> rounds to.
  The program only compares such numbers, takes minima and maxima, and divides once;
  rounding is monotone and leaves 0 and 1 fixed, so a comparison in the model differs
  from the program's at most between two reals less than one rounding step apart.
\<close>

datatype jsnum = NaN | NegInf | Fin real | PosInf

fun js_lt :: "jsnum \<Rightarrow> jsnum \<Rightarrow> bool" where
  "js_lt NaN _ = False"
| "js_lt _ NaN = False"
| "js_lt _ NegInf = False"
| "js_lt NegInf _ = True"
| "js_lt PosInf _ = False"
| "js_lt (Fin a) PosInf = True"
| "js_lt (Fin a) (Fin b) = (a < b)"

definition js_gt :: "jsnum \<Rightarrow> jsnum \<Rightarrow> bool" where
  "js_gt a b = js_lt b a"

definition Math_min :: "jsnum \<Rightarrow> jsnum \<Rightarrow> jsnum" where
  "Math_min a b = (if a = NaN \<or> b = NaN then NaN else if js_lt b a then b else a)"

definition Math_max :: "jsnum \<Rightarrow> jsnum \<Rightarrow> jsnum" where
  "Math_max a b = (if a = NaN \<or> b = NaN then NaN else if js_lt a b then b else a)"

text \<open>\<open>a / b\<close> for two integers held in doubles.\<close>

definition js_div :: "int \<Rightarrow> int \<Rightarrow> jsnum" where
  "js_div a b =
     (if b = 0 then (if a = 0 then NaN else if 0 < a then PosInf else NegInf)
      else Fin (real_of_int a / real_of_int b))"

text \<open>\<open>x || 0\<close> on a number: \<open>NaN\<close> and zero are falsy.\<close>

definition orZero :: "jsnum \<Rightarrow> jsnum" where
  "orZero x = (if x = NaN \<or> x = Fin 0 then Fin 0 else x)"

text \<open>
  The text a template literal gives a number that holds an integer (\<open>Number::toString\<close>).
  The number is a double: the integer is first rounded to 53 significant bits, to
  nearest and to even on a tie, and is \<open>Infinity\<close> from 2 to the 1024 on. The text shows
  the decimal number of fewest significant digits that still rounds to that double (the
  one nearest to it, if two of that length do), in full below ten to the 21, and from
  there on in exponent notation.
\<close>

fun showNat :: "nat \<Rightarrow> jsstring" where
  "showNat n = (if n < 10 then [48 + n] else showNat (n div 10) @ [48 + n mod 10])"

declare showNat.simps [simp del]

fun bitLength :: "nat \<Rightarrow> nat" where
  "bitLength n = (if n = 0 then 0 else Suc (bitLength (n div 2)))"

declare bitLength.simps [simp del]

definition toDouble :: "nat \<Rightarrow> nat" where
  "toDouble m =
     (if m < 2 ^ 53 then m
      else let e = bitLength m - 53;
               q = m div 2 ^ e;
               r = m mod 2 ^ e;
               half = 2 ^ (e - 1)
           in (if half < r \<or> (r = half \<and> odd q) then q + 1 else q) * 2 ^ e)"

text \<open>
  \<open>shortestFrom x d k\<close>: \<open>x\<close> is a double of \<open>d\<close> decimal digits; the multiples of ten
  to the \<open>d - k\<close> next to \<open>x\<close> are tried for \<open>k\<close>, then \<open>k + 1\<close>, and so on up to \<open>x\<close> itself.
\<close>

function shortestFrom :: "nat \<Rightarrow> nat \<Rightarrow> nat \<Rightarrow> nat" where
  "shortestFrom x d k =
     (if d \<le> k then x
      else let p = 10 ^ (d - k);
               a = (x div p) * p;
               b = (x div p + 1) * p
           in if toDouble a = x \<and> toDouble b = x then (if x - a \<le> b - x then a else b)
              else if toDouble a = x then a
              else if toDouble b = x then b
              else shortestFrom x d (Suc k))"
  by pat_completeness auto
termination
  by (relation "measure (\<lambda>(x, d, k). d - k)") auto

declare shortestFrom.simps [simp del]

definition shortestDecimal :: "nat \<Rightarrow> nat" where
  "shortestDecimal x = shortestFrom x (length (showNat x)) 1"

definition exponentText :: "nat \<Rightarrow> jsstring" where
  "exponentText v =
     (let ds = showNat v;
          sig = rev (dropWhile (\<lambda>c. c = 48) (rev ds))
      in (case sig of
            [] \<Rightarrow> []
          | c # cs \<Rightarrow> if cs = [] then [c] else c # 46 # cs)
         @ js ''e+'' @ showNat (length ds - 1))"

definition natToString :: "nat \<Rightarrow> jsstring" where
  "natToString m =
     (let x = toDouble m in
      if 2 ^ 1024 \<le> x then js ''Infinity''
      else let v = shortestDecimal x
           in if v < 10 ^ 21 then showNat v else exponentText v)"

definition numberToString :: "int \<Rightarrow> jsstring" where
  "numberToString i = (if i < 0 then 45 # natToString (nat (- i)) else natToString (nat i))"

section \<open>Regular expressions\<close>

text \<open>
  The regular expressions of the program, as syntax trees. \<open>rmatch r s\<close> lists, in the
  order a backtracking matcher tries them, the rests of \<open>s\<close> left after a match of \<open>r\<close>
  at its start: greedy choices first.
\<close>

datatype regex =
    Class "(nat \<times> nat) list"
  | NotClass "(nat \<times> nat) list"
  | Lit jsstring
  | Cat regex regex
  | Or regex regex
  | Opt regex
  | Repeat nat nat regex
  | Plus regex

definition inRanges :: "(nat \<times> nat) list \<Rightarrow> nat \<Rightarrow> bool" where
  "inRanges rs c = list_ex (\<lambda>r. fst r \<le> c \<and> c \<le> snd r) rs"

primrec exactly :: "(jsstring \<Rightarrow> jsstring list) \<Rightarrow> nat \<Rightarrow> jsstring \<Rightarrow> jsstring list" where
  "exactly m 0 s = [s]"
| "exactly m (Suc n) s = concat (map (exactly m n) (m s))"

primrec upTo :: "(jsstring \<Rightarrow> jsstring list) \<Rightarrow> nat \<Rightarrow> jsstring \<Rightarrow> jsstring list" where
  "upTo m 0 s = [s]"
| "upTo m (Suc n) s = concat (map (upTo m n) (m s)) @ [s]"

primrec rmatch :: "regex \<Rightarrow> jsstring \<Rightarrow> jsstring list" where
  "rmatch (Class rs) =
     (\<lambda>s. case s of [] \<Rightarrow> [] | c # cs \<Rightarrow> if inRanges rs c then [cs] else [])"
| "rmatch (NotClass rs) =
     (\<lambda>s. case s of [] \<Rightarrow> [] | c # cs \<Rightarrow> if inRanges rs c then [] else [cs])"
| "rmatch (Lit l) = (\<lambda>s. if take (length l) s = l then [drop (length l) s] else [])"
| "rmatch (Cat a b) = (\<lambda>s. concat (map (rmatch b) (rmatch a s)))"
| "rmatch (Or a b) = (\<lambda>s. rmatch a s @ rmatch b s)"
| "rmatch (Opt a) = (\<lambda>s. rmatch a s @ [s])"
| "rmatch (Repeat m n a) =
     (\<lambda>s. concat (map (upTo (rmatch a) (n - m)) (exactly (rmatch a) m s)))"
| "rmatch (Plus a) =
     (\<lambda>s. concat (map (upTo (\<lambda>t. filter (\<lambda>u. length u < length t) (rmatch a t)) (length s))
                        (rmatch a s)))"

text \<open>\<open>/^r$/.test(s)\<close>: some way of matching \<open>r\<close> uses up all of \<open>s\<close>.\<close>

definition testWhole :: "regex \<Rightarrow> jsstring \<Rightarrow> bool" where
  "testWhole r s = ([] \<in> set (rmatch r s))"

section \<open>The IP blocker\<close>

record IPBlocklist =
  blockedIPs :: "jsstring set"
  blockedRanges :: "jsstring list"

record IPValidationResult =
  isBlocked :: bool
  reason :: "jsstring option"
  blockedIP :: "jsstring option"

definition digit :: regex where
  "digit = Class [(48, 57)]"

definition octetRegex :: regex where
  "octetRegex =
     Or (Cat (Lit (js ''25'')) (Class [(48, 53)]))
        (Or (Cat (Lit (js ''2'')) (Cat (Class [(48, 52)]) digit))
            (Cat (Opt (Class [(48, 49)])) (Cat digit (Opt digit))))"

definition ipv4Regex :: regex where
  "ipv4Regex = Cat (Repeat 3 3 (Cat octetRegex (Lit (js ''.'')))) octetRegex"

definition hexDigit :: regex where
  "hexDigit = Class [(48, 57), (97, 102), (65, 70)]"

definition ipv6Regex :: regex where
  "ipv6Regex =
     Or (Cat (Repeat 7 7 (Cat (Repeat 1 4 hexDigit) (Lit (js '':'')))) (Repeat 1 4 hexDigit))
        (Or (Lit (js ''::1'')) (Lit (js ''::'')))"

definition isValidIP :: "jsstring \<Rightarrow> bool" where
  "isValidIP ip = (testWhole ipv4Regex ip \<or> testWhole ipv6Regex ip)"

definition isValidCIDR :: "jsstring \<Rightarrow> bool" where
  "isValidCIDR cidr =
     (let parts = split 47 cidr in
      if length parts \<noteq> 2 then False
      else let ip = parts ! 0; mask = parts ! 1 in
        if \<not> isValidIP ip then False
        else case parseInt mask of
               None \<Rightarrow> False
             | Some maskNum \<Rightarrow>
                 if str_includes ip (js ''.'') then 0 \<le> maskNum \<and> maskNum \<le> 32
                 else 0 \<le> maskNum \<and> maskNum \<le> 128)"

text \<open>
  \<open>ipv4ToNumber\<close>: the accumulator is a number (\<open>None\<close> is \<open>NaN\<close>); \<open>acc << 8\<close> first
  brings it to a signed 32-bit integer, and the final \<open>>>> 0\<close> reads the low 32 bits
  unsigned.
\<close>

definition toInt32 :: "int option \<Rightarrow> 32 word" where
  "toInt32 x = (case x of None \<Rightarrow> 0 | Some i \<Rightarrow> word_of_int i)"

definition ipv4Step :: "int option \<Rightarrow> jsstring \<Rightarrow> int option" where
  "ipv4Step acc octet =
     (case parseInt octet of
        None \<Rightarrow> None
      | Some v \<Rightarrow> Some (sint (push_bit 8 (toInt32 acc)) + v))"

definition ipv4ToNumber :: "jsstring \<Rightarrow> 32 word" where
  "ipv4ToNumber ip = toInt32 (foldl ipv4Step (Some 0) (split 46 ip))"

text \<open>
  \<open>(0xFFFFFFFF << (32 - maskBits)) >>> 0\<close>: the left operand is the 32-bit word of all
  ones, and JavaScript shifts by the low five bits of the count only.
\<close>

definition shiftCount :: "int option \<Rightarrow> nat" where
  "shiftCount maskBits = (case maskBits of None \<Rightarrow> 0 | Some p \<Rightarrow> nat ((32 - p) mod 32))"

definition prefixMask :: "int option \<Rightarrow> 32 word" where
  "prefixMask maskBits = push_bit (shiftCount maskBits) (- 1)"

definition isIPv4InRange :: "jsstring \<Rightarrow> jsstring \<Rightarrow> int option \<Rightarrow> bool" where
  "isIPv4InRange ip network maskBits =
     (let ipNum = ipv4ToNumber ip;
          networkNum = ipv4ToNumber network;
          mask = prefixMask maskBits
      in (ipNum AND mask) = (networkNum AND mask))"

definition expandIPv6 :: "jsstring \<Rightarrow> jsstring" where
  "expandIPv6 ip =
     (if ip = js ''::'' then js ''0000:0000:0000:0000:0000:0000:0000:0000''
      else if ip = js ''::1'' then js ''0000:0000:0000:0000:0000:0000:0000:0001''
      else toLowerCase ip)"

text \<open>\<open>s.substring(0, n)\<close> with \<open>n = Math.floor(maskBits / 4)\<close>: \<open>NaN\<close> and negative
  counts are read as 0.\<close>

definition substring0 :: "jsstring \<Rightarrow> int option \<Rightarrow> jsstring" where
  "substring0 s n = (case n of None \<Rightarrow> [] | Some k \<Rightarrow> take (nat k) s)"

definition isIPv6InRange :: "jsstring \<Rightarrow> jsstring \<Rightarrow> int option \<Rightarrow> bool" where
  "isIPv6InRange ip network maskBits =
     (let ipExpanded = expandIPv6 ip;
          networkExpanded = expandIPv6 network
      in if ipExpanded = [] \<or> networkExpanded = [] then False
         else let hexCharsToCheck = map_option (\<lambda>p. p div 4) maskBits
              in substring0 ipExpanded hexCharsToCheck = substring0 networkExpanded hexCharsToCheck)"

definition isIPInRange :: "jsstring \<Rightarrow> jsstring \<Rightarrow> bool" where
  "isIPInRange ip cidr =
     (let parts = split 47 cidr;
          network = parts ! 0;
          mask = (if 1 < length parts then Some (parts ! 1) else None);
          maskBits = parseIntOpt mask
      in if str_includes ip (js ''.'') \<and> str_includes network (js ''.'') then isIPv4InRange ip network maskBits
         else if str_includes ip (js '':'') \<and> str_includes network (js '':'') then isIPv6InRange ip network maskBits
         else False)"

definition notBlocked :: IPValidationResult where
  "notBlocked = \<lparr>isBlocked = False, reason = None, blockedIP = None\<rparr>"

definition validateIP :: "IPBlocklist \<Rightarrow> jsstring \<Rightarrow> IPValidationResult" where
  "validateIP bl ip =
     (if ip = [] \<or> \<not> isValidIP ip then notBlocked
      else if ip \<in> blockedIPs bl then
        \<lparr>isBlocked = True, reason = Some (js ''IP address is in blocklist''), blockedIP = Some ip\<rparr>
      else case find (isIPInRange ip) (blockedRanges bl) of
             Some rng \<Rightarrow>
               \<lparr>isBlocked = True,
                reason = Some (js ''IP address is in blocked range: '' @ rng),
                blockedIP = Some ip\<rparr>
           | None \<Rightarrow> notBlocked)"

definition addIP :: "IPBlocklist \<Rightarrow> jsstring \<Rightarrow> bool \<times> IPBlocklist" where
  "addIP bl ip =
     (if \<not> isValidIP ip then (False, bl)
      else (True, bl\<lparr>blockedIPs := insert ip (blockedIPs bl)\<rparr>))"

definition removeIP :: "IPBlocklist \<Rightarrow> jsstring \<Rightarrow> bool \<times> IPBlocklist" where
  "removeIP bl ip = (ip \<in> blockedIPs bl, bl\<lparr>blockedIPs := blockedIPs bl - {ip}\<rparr>)"

definition addRange :: "IPBlocklist \<Rightarrow> jsstring \<Rightarrow> bool \<times> IPBlocklist" where
  "addRange bl cidr =
     (if \<not> isValidCIDR cidr then (False, bl)
      else if cidr \<in> set (blockedRanges bl) then (True, bl)
      else (True, bl\<lparr>blockedRanges := blockedRanges bl @ [cidr]\<rparr>))"

definition removeRange :: "IPBlocklist \<Rightarrow> jsstring \<Rightarrow> bool \<times> IPBlocklist" where
  "removeRange bl cidr =
     (if cidr \<in> set (blockedRanges bl)
      then (True, bl\<lparr>blockedRanges := remove1 cidr (blockedRanges bl)\<rparr>)
      else (False, bl))"

definition newIPBlocker :: IPBlocklist where
  "newIPBlocker = \<lparr>blockedIPs = {}, blockedRanges = []\<rparr>"

section \<open>Posts and the rule table\<close>

text \<open>
  \<open>text\<close> is typed as a string, but a post comes from a request body, so the field may
  be missing or hold something else; \<open>validatePost\<close> tests for both.
\<close>

datatype textval = Undefined | NonString | Str jsstring

record TwitterPost =
  post_text :: textval
  username :: "jsstring option"
  timestamp :: "nat option"
  clientIP :: "jsstring option"

text \<open>
  The rules read \<open>post.text\<close> as a string. They run only after \<open>validatePost\<close> has
  accepted the post, which it does for non-empty strings only.
\<close>

definition textOf :: "TwitterPost \<Rightarrow> jsstring" where
  "textOf post = (case post_text post of Str t \<Rightarrow> t | _ \<Rightarrow> [])"

text \<open>
  \<open>s.match(r)\<close> for a regular expression with the \<open>g\<close> flag: the matches from left to
  right, each the first one the matcher finds at the leftmost position that has one; the
  search goes on behind it, one code unit further after an empty match.
\<close>

function matchAll :: "regex \<Rightarrow> jsstring \<Rightarrow> jsstring list" where
  "matchAll r [] = (if rmatch r [] = [] then [] else [[]])"
| "matchAll r (c # cs) =
     (case rmatch r (c # cs) of
        [] \<Rightarrow> matchAll r cs
      | rest # _ \<Rightarrow>
          if length rest \<le> length cs
          then take (Suc (length cs) - length rest) (c # cs)
                 # matchAll r (drop (Suc (length cs) - length rest) (c # cs))
          else [] # matchAll r cs)"
  by pat_completeness auto
termination
  by (relation "measure (\<lambda>(r, s). length s)") auto

text \<open>With the \<open>u\<close> flag a regular expression reads code points: a surrogate pair is one.\<close>

fun codePoints :: "jsstring \<Rightarrow> nat list" where
  "codePoints (h # l # cs) =
     (if 55296 \<le> h \<and> h \<le> 56319 \<and> 56320 \<le> l \<and> l \<le> 57343
      then (65536 + (h - 55296) * 1024 + (l - 56320)) # codePoints cs
      else h # codePoints (l # cs))"
| "codePoints cs = cs"

record SpamRule =
  name :: jsstring
  check :: "TwitterPost \<Rightarrow> bool"
  severity :: int
  description :: jsstring

text \<open>
  The ratio of capitals is a quotient of two lengths. It exceeds 0.7 as a double exactly
  when it does as a fraction, for every text shorter than ten to the fifteenth.
\<close>

definition capsRegex :: regex where
  "capsRegex = Class [(65, 90)]"

definition excessive_caps :: "TwitterPost \<Rightarrow> bool" where
  "excessive_caps post =
     (let capsRatio = js_div (int (length (matchAll capsRegex (textOf post))))
                             (int (length (textOf post)))
      in js_gt capsRatio (Fin 0.7) \<and> 10 < length (textOf post))"

text \<open>\<open>/(.)\1{4,}/\<close>: a code unit other than a line terminator, then itself four times.\<close>

definition isLineTerminator :: "nat \<Rightarrow> bool" where
  "isLineTerminator c \<longleftrightarrow> c = 10 \<or> c = 13 \<or> c = 8232 \<or> c = 8233"

primrec repeatedRun :: "jsstring \<Rightarrow> bool" where
  "repeatedRun [] = False"
| "repeatedRun (c # cs) =
     ((\<not> isLineTerminator c \<and> take 4 cs = [c, c, c, c]) \<or> repeatedRun cs)"

definition repeated_characters :: "TwitterPost \<Rightarrow> bool" where
  "repeated_characters post = repeatedRun (textOf post)"

definition emojiRegex :: regex where
  "emojiRegex =
     Or (Class [(128512, 128591)])
    (Or (Class [(127744, 128511)])
    (Or (Class [(128640, 128767)])
    (Or (Class [(127456, 127487)])
    (Or (Class [(9728, 9983)])
        (Class [(9984, 10175)])))))"

definition excessive_emojis :: "TwitterPost \<Rightarrow> bool" where
  "excessive_emojis post =
     (let emojiCount = length (matchAll emojiRegex (codePoints (textOf post)))
      in 5 < emojiCount \<or> (2 < emojiCount \<and> length (textOf post) < 50))"

definition whiteSpaceRanges :: "(nat \<times> nat) list" where
  "whiteSpaceRanges =
     [(9, 13), (32, 32), (160, 160), (5760, 5760), (8192, 8202), (8232, 8233),
      (8239, 8239), (8287, 8287), (12288, 12288), (65279, 65279)]"

definition urlRegex :: regex where
  "urlRegex =
     Cat (Lit (js ''http'')) (Cat (Opt (Lit (js ''s'')))
       (Cat (Lit (js ''://'')) (Plus (NotClass whiteSpaceRanges))))"

definition suspicious_urls :: "TwitterPost \<Rightarrow> bool" where
  "suspicious_urls post =
     (let urls = matchAll urlRegex (textOf post)
      in 2 < length urls \<or>
         list_ex (\<lambda>url. str_includes url (js ''bit.ly'') \<or>
                         str_includes url (js ''tinyurl'') \<or>
                         str_includes url (js ''t.co'') \<or>
                         100 < length url) urls)"

definition spamKeywords :: "jsstring list" where
  "spamKeywords =
     [js ''free money'', js ''click here'', js ''limited time'', js ''act now'',
      js ''guaranteed'', js ''make money fast'', js ''work from home'',
      js ''lose weight fast'', js ''miracle cure'', js ''buy now'', js ''special offer'',
      js ''congratulations you won'', js ''claim your prize'']"

definition spam_keywords :: "TwitterPost \<Rightarrow> bool" where
  "spam_keywords post =
     (let text = toLowerCase (textOf post)
      in list_ex (\<lambda>keyword. str_includes text keyword) spamKeywords)"

definition wordClass :: regex where
  "wordClass = Class [(65, 90), (97, 122), (48, 57), (95, 95)]"

definition excessive_mentions :: "TwitterPost \<Rightarrow> bool" where
  "excessive_mentions post =
     (let mentions = length (matchAll (Cat (Lit (js ''@'')) (Plus wordClass)) (textOf post))
      in 3 < mentions)"

definition excessive_hashtags :: "TwitterPost \<Rightarrow> bool" where
  "excessive_hashtags post =
     (let hashtags = length (matchAll (Cat (Lit (js ''#'')) (Plus wordClass)) (textOf post))
      in 5 < hashtags \<or> (2 < hashtags \<and> length (textOf post) < 50))"

definition profanityWords :: "jsstring list" where
  "profanityWords =
     [js ''fuck'', js ''shit'', js ''bitch'', js ''asshole'', js ''damn'', js ''crap'']"

definition profanity_filter :: "TwitterPost \<Rightarrow> bool" where
  "profanity_filter post =
     (let text = toLowerCase (textOf post)
      in list_ex (\<lambda>word. str_includes text word) profanityWords)"

definition too_short :: "TwitterPost \<Rightarrow> bool" where
  "too_short post = (length (trim (textOf post)) < 3)"

definition all_numbers :: "TwitterPost \<Rightarrow> bool" where
  "all_numbers post =
     (let cleanText = filter (inRanges [(97, 122), (65, 90), (48, 57)]) (textOf post)
      in 0 < length cleanText \<and> testWhole (Plus digit) cleanText)"

definition spamRules :: "SpamRule list" where
  "spamRules =
     [\<lparr>name = js ''excessive_caps'', check = excessive_caps, severity = 3,
       description = js ''Post contains excessive capital letters''\<rparr>,
      \<lparr>name = js ''repeated_characters'', check = repeated_characters, severity = 2,
       description = js ''Post contains repeated characters (5+ in a row)''\<rparr>,
      \<lparr>name = js ''excessive_emojis'', check = excessive_emojis, severity = 2,
       description = js ''Post contains excessive emojis''\<rparr>,
      \<lparr>name = js ''suspicious_urls'', check = suspicious_urls, severity = 5,
       description = js ''Post contains suspicious or excessive URLs''\<rparr>,
      \<lparr>name = js ''spam_keywords'', check = spam_keywords, severity = 5,
       description = js ''Post contains spam keywords''\<rparr>,
      \<lparr>name = js ''excessive_mentions'', check = excessive_mentions, severity = 3,
       description = js ''Post contains excessive mentions''\<rparr>,
      \<lparr>name = js ''excessive_hashtags'', check = excessive_hashtags, severity = 2,
       description = js ''Post contains excessive hashtags''\<rparr>,
      \<lparr>name = js ''profanity_filter'', check = profanity_filter, severity = 3,
       description = js ''Post contains profanity''\<rparr>,
      \<lparr>name = js ''too_short'', check = too_short, severity = 1,
       description = js ''Post is too short to be meaningful''\<rparr>,
      \<lparr>name = js ''all_numbers'', check = all_numbers, severity = 2,
       description = js ''Post contains only numbers''\<rparr>]"

section \<open>The analyzer adapter\<close>

datatype Severity = Low | Medium | High

record AIDetectionResult =
  aiIsSpam :: bool
  aiConfidence :: jsnum
  reasoning :: jsstring
  categories :: "jsstring list"
  aiSeverity :: Severity

record GeminiSpamDetector =
  apiKey :: jsstring
  genAI :: bool

text \<open>
  The constructor: \<open>apiKey || process.env.GEMINI_API_KEY || ''\<close>, and a client
  (\<open>genAI\<close> not null) exactly when that key is not empty.
\<close>

definition truthy :: "jsstring option \<Rightarrow> bool" where
  "truthy x = (case x of None \<Rightarrow> False | Some v \<Rightarrow> v \<noteq> [])"

definition newGeminiSpamDetector :: "jsstring option \<Rightarrow> jsstring option \<Rightarrow> GeminiSpamDetector" where
  "newGeminiSpamDetector env key =
     (let k = (if truthy key then the key else if truthy env then the env else [])
      in \<lparr>apiKey = k, genAI = (k \<noteq> [])\<rparr>)"

definition isConfigured :: "GeminiSpamDetector \<Rightarrow> bool" where
  "isConfigured g = (genAI g \<and> 0 < length (apiKey g))"

text \<open>
  What the provider sends back is outside the program. \<open>ParsedReply\<close> is the object that
  \<open>JSON.parse\<close> returned, seen through the conversions the sanitizer applies to its
  fields: \<open>Boolean(isSpam)\<close>, \<open>Number(confidence)\<close>, the reasoning unless it is falsy,
  the categories when they are an array, the severity when it is one of the three names.
\<close>

record ParsedReply =
  pIsSpam :: bool
  pConfidence :: jsnum
  pReasoning :: "jsstring option"
  pCategories :: "jsstring list option"
  pSeverity :: "Severity option"

text \<open>
  \<open>CallFails\<close>: the request throws. \<open>Responds None\<close>: the answer holds no JSON object,
  or \<open>JSON.parse\<close> throws on it.
\<close>

datatype ProviderReply = CallFails | Responds "ParsedReply option"

definition fallbackResult :: AIDetectionResult where
  "fallbackResult =
     \<lparr>aiIsSpam = False, aiConfidence = Fin 0,
      reasoning = js ''Failed to analyze content with AI'',
      categories = [js ''analysis_error''], aiSeverity = Low\<rparr>"

definition parseAIResponse :: "ParsedReply option \<Rightarrow> AIDetectionResult" where
  "parseAIResponse response =
     (case response of
        None \<Rightarrow> fallbackResult
      | Some parsed \<Rightarrow>
          \<lparr>aiIsSpam = pIsSpam parsed,
           aiConfidence = Math_max (Fin 0) (Math_min (Fin 1) (orZero (pConfidence parsed))),
           reasoning = (case pReasoning parsed of None \<Rightarrow> js ''No reasoning provided'' | Some r \<Rightarrow> r),
           categories = (case pCategories parsed of None \<Rightarrow> [] | Some cs \<Rightarrow> cs),
           aiSeverity = (case pSeverity parsed of None \<Rightarrow> Low | Some v \<Rightarrow> v)\<rparr>)"

definition analyzeSpam :: "GeminiSpamDetector \<Rightarrow> TwitterPost \<Rightarrow> ProviderReply \<Rightarrow> AIDetectionResult option" where
  "analyzeSpam g post reply =
     (if \<not> isConfigured g then None
      else case reply of
             CallFails \<Rightarrow> None
           | Responds response \<Rightarrow> Some (parseAIResponse response))"

section \<open>The detector\<close>

datatype Action = Allow | Flag | Reject

record SpamDetectionResult =
  isSpam :: bool
  confidence :: jsnum
  reasons :: "jsstring list"
  action :: Action
  aiAnalysis :: "AIDetectionResult option"

text \<open>
  The thresholds and length bounds are numbers that hold integers. An integer beyond 2
  to the 53 stands for the double it rounds to: no comparison with the length of a
  string or with a sum of severities tells the two apart, and \<open>numberToString\<close> rounds
  before it prints.
\<close>

record DetectionConfig =
  spamThreshold :: int
  flagThreshold :: int
  maxTextLength :: int
  minTextLength :: int
  enableIPBlocking :: bool
  enableAIDetection :: bool
  geminiApiKey :: "jsstring option"

record SpamDetector =
  config :: DetectionConfig
  ipBlocker :: IPBlocklist
  geminiDetector :: GeminiSpamDetector

text \<open>
  The constructor. \<open>env\<close> is \<open>process.env.GEMINI_API_KEY\<close>; the partial configuration
  a caller passes overwrites the defaults field by field, so it is an update of them.
\<close>

definition defaultConfig :: "jsstring option \<Rightarrow> DetectionConfig" where
  "defaultConfig env =
     \<lparr>spamThreshold = 6, flagThreshold = 3, maxTextLength = 280, minTextLength = 1,
      enableIPBlocking = True, enableAIDetection = False, geminiApiKey = env\<rparr>"

definition newSpamDetector ::
  "jsstring option \<Rightarrow> (DetectionConfig \<Rightarrow> DetectionConfig) \<Rightarrow> SpamDetector" where
  "newSpamDetector env partial =
     (let cfg = partial (defaultConfig env)
      in \<lparr>config = cfg, ipBlocker = newIPBlocker,
          geminiDetector = newGeminiSpamDetector env (geminiApiKey cfg)\<rparr>)"

record PostValidation =
  isValid :: bool
  validationReasons :: "jsstring list"

definition requiredMessage :: jsstring where
  "requiredMessage = js ''Post text is required and must be a string''"

definition exceedsMessage :: "int \<Rightarrow> jsstring" where
  "exceedsMessage n = js ''Post exceeds maximum length of '' @ numberToString n @ js '' characters''"

definition belowMessage :: "int \<Rightarrow> jsstring" where
  "belowMessage n = js ''Post is below minimum length of '' @ numberToString n @ js '' characters''"

definition validatePost :: "DetectionConfig \<Rightarrow> TwitterPost \<Rightarrow> PostValidation" where
  "validatePost cfg post =
     (let rs = (case post_text post of
                  Str t \<Rightarrow>
                    if t = [] then [requiredMessage]
                    else (if maxTextLength cfg < int (length t)
                          then [exceedsMessage (maxTextLength cfg)] else []) @
                         (if int (length (trim t)) < minTextLength cfg
                          then [belowMessage (minTextLength cfg)] else [])
                | _ \<Rightarrow> [requiredMessage])
      in \<lparr>isValid = (length rs = 0), validationReasons = rs\<rparr>)"

text \<open>The origin check of \<open>detectSpam\<close>: the verdict of the blocker, when it is asked.\<close>

definition originCheck :: "SpamDetector \<Rightarrow> TwitterPost \<Rightarrow> IPValidationResult" where
  "originCheck s post =
     (if enableIPBlocking (config s) \<and> truthy (clientIP post)
      then validateIP (ipBlocker s) (the (clientIP post))
      else notBlocked)"

definition triggeredRules :: "TwitterPost \<Rightarrow> SpamRule list" where
  "triggeredRules post = filter (\<lambda>rule. check rule post) spamRules"

definition totalSeverity :: "TwitterPost \<Rightarrow> int" where
  "totalSeverity post = foldl (\<lambda>sum rule. sum + severity rule) 0 (triggeredRules post)"

text \<open>The analyzer call of \<open>detectSpam\<close>; an answer of \<open>null\<close> leaves the verdict absent.\<close>

definition analyzerCall :: "SpamDetector \<Rightarrow> TwitterPost \<Rightarrow> ProviderReply \<Rightarrow> AIDetectionResult option" where
  "analyzerCall s post reply =
     (if enableAIDetection (config s) \<and> isConfigured (geminiDetector s)
      then analyzeSpam (geminiDetector s) post reply
      else None)"

definition aiOverrides :: "AIDetectionResult option \<Rightarrow> bool" where
  "aiOverrides ai =
     (case ai of None \<Rightarrow> False | Some a \<Rightarrow> aiIsSpam a \<and> js_gt (aiConfidence a) (Fin 0.8))"

text \<open>
  \<open>detectSpam\<close> returns its result together with the detector it leaves behind. \<open>reply\<close>
  is what the provider does if it is called.
\<close>

definition detectSpam ::
  "SpamDetector \<Rightarrow> TwitterPost \<Rightarrow> ProviderReply \<Rightarrow> SpamDetectionResult \<times> SpamDetector" where
  "detectSpam s post reply =
     (let ipValidation = originCheck s post in
      if isBlocked ipValidation then
        (\<lparr>isSpam = True, confidence = Fin 1,
          reasons = [if truthy (reason ipValidation) then the (reason ipValidation)
                     else js ''IP address is blocked''],
          action = Reject, aiAnalysis = None\<rparr>, s)
      else
      let validationResult = validatePost (config s) post in
      if \<not> isValid validationResult then
        (\<lparr>isSpam = True, confidence = Fin 1, reasons = validationReasons validationResult,
          action = Reject, aiAnalysis = None\<rparr>, s)
      else
      let sev = totalSeverity post;
          ai = analyzerCall s post reply;
          rs = map description (triggeredRules post) @
               (case ai of
                  None \<Rightarrow> []
                | Some aiResult \<Rightarrow>
                    if aiIsSpam aiResult \<and> js_gt (aiConfidence aiResult) (Fin 0.7)
                    then [js ''AI detected spam: '' @ reasoning aiResult] else []);
          base = Math_min (js_div sev (spamThreshold (config s))) (Fin 1);
          conf = (case ai of
                    None \<Rightarrow> base
                  | Some a \<Rightarrow> if aiIsSpam a then Math_max base (aiConfidence a) else base);
          spam = (if aiOverrides ai then True else flagThreshold (config s) \<le> sev);
          act = (if aiOverrides ai then
                   (if map_option aiSeverity ai = Some High then Reject
                    else if spamThreshold (config s) \<le> sev then Reject else Flag)
                 else if spamThreshold (config s) \<le> sev then Reject
                 else if flagThreshold (config s) \<le> sev then Flag
                 else Allow)
      in (\<lparr>isSpam = spam, confidence = conf, reasons = rs, action = act, aiAnalysis = ai\<rparr>, s))"

section \<open>Notions the properties are stated with\<close>

text \<open>A confidence lies in the closed interval from 0 to 1: it is a number, not \<open>NaN\<close>.\<close>

definition inUnit :: "jsnum \<Rightarrow> bool" where
  "inUnit c = (case c of Fin r \<Rightarrow> 0 \<le> r \<and> r \<le> 1 | _ \<Rightarrow> False)"

text \<open>
  The mask of a prefix length as the specification words it: the 32-bit word whose top
  \<open>p\<close> bits are ones. \<open>prefixMask\<close> above is what the code computes.
\<close>

definition topBitsMask :: "nat \<Rightarrow> 32 word" where
  "topBitsMask p = NOT (mask (32 - p))"

text \<open>
  The posts that validation turns away: the text is missing, not a string or empty, or
  longer than \<open>maxTextLength\<close>, or shorter than \<open>minTextLength\<close> once trimmed.
\<close>

definition textRejected :: "DetectionConfig \<Rightarrow> TwitterPost \<Rightarrow> bool" where
  "textRejected cfg post =
     (case post_text post of
        Str t \<Rightarrow> t = [] \<or> maxTextLength cfg < int (length t) \<or>
                 int (length (trim t)) < minTextLength cfg
      | _ \<Rightarrow> True)"

text \<open>A post that carries a text and nothing else, and one that also names its origin.\<close>

definition plainPost :: "string \<Rightarrow> TwitterPost" where
  "plainPost t = \<lparr>post_text = Str (js t), username = None, timestamp = None, clientIP = None\<rparr>"

definition postFrom :: "string \<Rightarrow> textval \<Rightarrow> TwitterPost" where
  "postFrom ip t = \<lparr>post_text = t, username = None, timestamp = None, clientIP = Some (js ip)\<rparr>"

text \<open>
  Detectors and provider answers for the examples: the detector a caller gets with no
  options, one with the analyzer switched on and a key, an answer that marks spam with
  confidence 0.9 and high severity together with the verdict the sanitizer makes of it,
  and an answer whose confidence is out of range.
\<close>

definition plainDetector :: SpamDetector where
  "plainDetector = newSpamDetector None (\<lambda>c. c)"

definition analyzerOn :: SpamDetector where
  "analyzerOn = newSpamDetector (Some (js ''key'')) (\<lambda>c. c\<lparr>enableAIDetection := True\<rparr>)"

definition highSpamReply :: ProviderReply where
  "highSpamReply =
     Responds (Some \<lparr>pIsSpam = True, pConfidence = Fin 0.9,
                      pReasoning = Some (js ''Contains spam indicators''),
                      pCategories = Some [js ''promotion''], pSeverity = Some High\<rparr>)"

definition highSpamVerdict :: AIDetectionResult where
  "highSpamVerdict =
     \<lparr>aiIsSpam = True, aiConfidence = Fin 0.9, reasoning = js ''Contains spam indicators'',
      categories = [js ''promotion''], aiSeverity = High\<rparr>"

definition malformedReply :: ProviderReply where
  "malformedReply =
     Responds (Some \<lparr>pIsSpam = True, pConfidence = Fin 7, pReasoning = None,
                      pCategories = None, pSeverity = None\<rparr>)"

section \<open>Facts about the text of numbers\<close>

lemmas number_defs = numberToString_def natToString_def toDouble_def shortestDecimal_def
  shortestFrom.simps showNat.simps exponentText_def bitLength.simps

lemma number_text_5: "numberToString 5 = js ''5''"
  by (simp add: number_defs js_def)

lemma number_text_280: "numberToString 280 = js ''280''"
  by (simp add: number_defs js_def Let_def)

lemma number_text_negative: "numberToString (- 12) = js ''-12''"
  by (simp add: number_defs js_def Let_def)

text \<open>Above 2 to the 53 the text shows the rounded number, by its shortest digits.\<close>

lemma number_text_2_53_1: "numberToString 9007199254740993 = js ''9007199254740992''"
  by (simp add: number_defs js_def Let_def)

lemma number_text_2_60: "numberToString 1152921504606846976 = js ''1152921504606847000''"
  by (simp add: number_defs js_def Let_def)

text \<open>From ten to the 21 on the text is in exponent notation.\<close>

lemma number_text_1e21: "numberToString 1000000000000000000000 = js ''1e+21''"
  by (simp add: number_defs js_def Let_def)

lemma number_text_2_70: "numberToString 1180591620717411303424 = js ''1.1805916207174113e+21''"
  by (simp add: number_defs js_def Let_def)

section \<open>Facts about the IP blocker\<close>

lemma isValidIP_Nil: "\<not> isValidIP []"
  by code_simp

lemma isValidIP_nonempty: "isValidIP ip \<Longrightarrow> ip \<noteq> []"
  using isValidIP_Nil by auto

lemma find_SomeD: "find P xs = Some x \<Longrightarrow> x \<in> set xs \<and> P x"
  by (induction xs) (auto split: if_splits)

text \<open>A valid address is blocked exactly by its own entry or by a range that holds it.\<close>

lemma validateIP_blocked_iff:
  assumes "isValidIP ip"
  shows "isBlocked (validateIP bl ip) =
           (ip \<in> blockedIPs bl \<or> (\<exists>r\<in>set (blockedRanges bl). isIPInRange ip r))"
proof (cases "find (isIPInRange ip) (blockedRanges bl)")
  case None
  then have "\<not> (\<exists>r\<in>set (blockedRanges bl). isIPInRange ip r)"
    by (simp add: find_None_iff)
  with None assms show ?thesis
    by (simp add: validateIP_def notBlocked_def isValidIP_nonempty)
next
  case (Some r)
  then have "\<exists>r\<in>set (blockedRanges bl). isIPInRange ip r"
    using find_SomeD by fastforce
  with Some assms show ?thesis
    by (simp add: validateIP_def notBlocked_def isValidIP_nonempty)
qed

text \<open>What a blocking verdict gives as its reason: one of two texts, neither empty.\<close>

lemma validateIP_reason:
  assumes "isBlocked (validateIP bl ip)"
  shows "reason (validateIP bl ip) = Some (js ''IP address is in blocklist'') \<or>
         (\<exists>rng\<in>set (blockedRanges bl).
            reason (validateIP bl ip) = Some (js ''IP address is in blocked range: '' @ rng))"
proof (cases "ip = [] \<or> \<not> isValidIP ip")
  case True
  with assms show ?thesis by (simp add: validateIP_def notBlocked_def)
next
  case valid: False
  show ?thesis
  proof (cases "ip \<in> blockedIPs bl")
    case True
    with valid show ?thesis by (simp add: validateIP_def)
  next
    case False
    show ?thesis
    proof (cases "find (isIPInRange ip) (blockedRanges bl)")
      case None
      with valid False assms show ?thesis by (simp add: validateIP_def notBlocked_def)
    next
      case (Some rng)
      then have "rng \<in> set (blockedRanges bl)" using find_SomeD by fastforce
      with valid False Some show ?thesis by (auto simp: validateIP_def)
    qed
  qed
qed

text \<open>
  \<open>ipv4ToNumber\<close> read on 32-bit words throughout: going through the signed value
  between two steps changes nothing.
\<close>

lemma toInt32_ipv4Step:
  "toInt32 (ipv4Step acc octet) =
     (case parseInt octet of None \<Rightarrow> 0 | Some v \<Rightarrow> push_bit 8 (toInt32 acc) + word_of_int v)"
  by (simp add: ipv4Step_def toInt32_def split: option.splits)

lemma toInt32_foldl:
  "toInt32 (foldl ipv4Step acc xs) =
     foldl (\<lambda>w octet. case parseInt octet of None \<Rightarrow> 0 | Some v \<Rightarrow> push_bit 8 w + word_of_int v)
       (toInt32 acc) xs"
  by (induction xs arbitrary: acc) (simp_all add: toInt32_ipv4Step)

lemma ipv4ToNumber_words:
  "ipv4ToNumber ip =
     foldl (\<lambda>w octet. case parseInt octet of None \<Rightarrow> 0 | Some v \<Rightarrow> push_bit 8 w + word_of_int v)
       0 (split 46 ip)"
  by (simp add: ipv4ToNumber_def toInt32_foldl) (simp add: toInt32_def)

lemmas parse_defs = parseIntOpt_def parseInt_def isWhiteSpace_def isDigit_def digitsValue_def

lemma number_1_2_3_4: "ipv4ToNumber (js ''1.2.3.4'') = 16909060"
  by (simp add: ipv4ToNumber_words parse_defs js_def)

lemma number_0_0_0_0: "ipv4ToNumber (js ''0.0.0.0'') = 0"
  by (simp add: ipv4ToNumber_words parse_defs js_def)

lemma number_192_168_1_0: "ipv4ToNumber (js ''192.168.1.0'') = 3232235776"
  by (simp add: ipv4ToNumber_words parse_defs js_def)

lemma number_192_168_1_1: "ipv4ToNumber (js ''192.168.1.1'') = 3232235777"
  by (simp add: ipv4ToNumber_words parse_defs js_def)

lemma number_192_168_1_5: "ipv4ToNumber (js ''192.168.1.5'') = 3232235781"
  by (simp add: ipv4ToNumber_words parse_defs js_def)

lemma number_192_168_1_254: "ipv4ToNumber (js ''192.168.1.254'') = 3232236030"
  by (simp add: ipv4ToNumber_words parse_defs js_def)

lemma number_192_168_2_1: "ipv4ToNumber (js ''192.168.2.1'') = 3232236033"
  by (simp add: ipv4ToNumber_words parse_defs js_def)

text \<open>
  For the prefix lengths 1 to 32 the code's mask is the mask of the specification. For
  the prefix length 0 the shift count 32 is read as 0, and the mask is all ones.
\<close>

lemma prefixMask_topBits:
  assumes "1 \<le> p" and "p \<le> 32"
  shows "prefixMask (Some p) = topBitsMask (nat p)"
proof -
  have "(32 - p) mod 32 = 32 - p" using assms by presburger
  moreover have "nat (32 - p) = 32 - nat p" using assms by simp
  ultimately show ?thesis
    by (simp add: prefixMask_def shiftCount_def topBitsMask_def push_bit_minus_one_eq_not_mask)
qed

lemma isIPv4InRange_topBits:
  assumes "1 \<le> p" and "p \<le> 32"
  shows "isIPv4InRange ip network (Some p) \<longleftrightarrow>
           (ipv4ToNumber ip AND topBitsMask (nat p)) = (ipv4ToNumber network AND topBitsMask (nat p))"
  using prefixMask_topBits [OF assms] by (simp add: isIPv4InRange_def Let_def)

lemma prefixMask_zero: "prefixMask (Some 0) = - 1"
  by (simp add: prefixMask_def shiftCount_def)

lemma topBitsMask_zero: "topBitsMask 0 = 0"
  by (simp add: topBitsMask_def mask_eq_exp_minus_1 not_eq_complement)

lemma prefixMask_24: "prefixMask (Some 24) = 4294967040"
  by (simp add: prefixMask_def shiftCount_def push_bit_eq_mult)

lemma range_24_holds_1: "isIPInRange (js ''192.168.1.1'') (js ''192.168.1.0/24'')"
  using number_192_168_1_1 number_192_168_1_0 prefixMask_24
  by (simp add: isIPInRange_def isIPv4InRange_def parse_defs js_def)

lemma range_24_holds_5: "isIPInRange (js ''192.168.1.5'') (js ''192.168.1.0/24'')"
  using number_192_168_1_5 number_192_168_1_0 prefixMask_24
  by (simp add: isIPInRange_def isIPv4InRange_def parse_defs js_def)

lemma range_24_holds_254: "isIPInRange (js ''192.168.1.254'') (js ''192.168.1.0/24'')"
  using number_192_168_1_254 number_192_168_1_0 prefixMask_24
  by (simp add: isIPInRange_def isIPv4InRange_def parse_defs js_def)

lemma range_24_misses_2_1: "\<not> isIPInRange (js ''192.168.2.1'') (js ''192.168.1.0/24'')"
  using number_192_168_2_1 number_192_168_1_0 prefixMask_24
  by (simp add: isIPInRange_def isIPv4InRange_def parse_defs js_def)

lemma range_0_misses: "\<not> isIPInRange (js ''1.2.3.4'') (js ''0.0.0.0/0'')"
  using number_1_2_3_4 number_0_0_0_0 prefixMask_zero
  by (simp add: isIPInRange_def isIPv4InRange_def parse_defs js_def)

lemma valid_1_2_3_4: "isValidIP (js ''1.2.3.4'')"
  by code_simp

lemma valid_0_0_0_0: "isValidIP (js ''0.0.0.0'')"
  by code_simp

lemma valid_192_168_1_0: "isValidIP (js ''192.168.1.0'')"
  by code_simp

lemma valid_192_168_1_1: "isValidIP (js ''192.168.1.1'')"
  by code_simp

lemma valid_192_168_1_5: "isValidIP (js ''192.168.1.5'')"
  by code_simp

lemma valid_192_168_1_254: "isValidIP (js ''192.168.1.254'')"
  by code_simp

lemma valid_192_168_2_1: "isValidIP (js ''192.168.2.1'')"
  by code_simp

lemma valid_upper: "isValidIP (js ''2001:0DB8:85A3:0000:0000:8A2E:0370:7334'')"
  by code_simp

lemma valid_lower: "isValidIP (js ''2001:0db8:85a3:0000:0000:8a2e:0370:7334'')"
  by code_simp

lemma cidr_slash_0: "isValidCIDR (js ''0.0.0.0/0'')"
  using valid_0_0_0_0 by (simp add: isValidCIDR_def parse_defs js_def)

lemma cidr_slash_24: "isValidCIDR (js ''192.168.1.0/24'')"
  using valid_192_168_1_0 by (simp add: isValidCIDR_def parse_defs js_def)

lemma cidr_slash_33: "\<not> isValidCIDR (js ''192.168.1.0/33'')"
  using valid_192_168_1_0 by (simp add: isValidCIDR_def parse_defs js_def)

lemma cidr_no_slash: "\<not> isValidCIDR (js ''192.168.1.0'')"
  by (simp add: isValidCIDR_def js_def)

lemma cidr_non_digit: "\<not> isValidCIDR (js ''192.168.1.0/x2'')"
  using valid_192_168_1_0 by (simp add: isValidCIDR_def parse_defs js_def)

section \<open>Facts about the detector\<close>

lemma foldl_severity:
  "foldl (\<lambda>sum rule. sum + severity rule) acc rs = acc + sum_list (map severity rs)"
  by (induction rs arbitrary: acc) simp_all

lemma totalSeverity_sum:
  "totalSeverity post = sum_list (map severity (filter (\<lambda>rule. check rule post) spamRules))"
  by (simp add: totalSeverity_def triggeredRules_def foldl_severity)

lemma spamRules_positive: "\<forall>rule\<in>set spamRules. 0 < severity rule"
  by (simp add: spamRules_def)

lemma sum_list_filter_nonneg:
  "\<forall>r\<in>set rs. 0 < severity r \<Longrightarrow> 0 \<le> sum_list (map severity (filter P rs))"
  by (induction rs) auto

lemma sum_list_filter_pos:
  "0 < sum_list (map severity (filter P rs)) \<Longrightarrow> filter P rs \<noteq> []"
  by (induction rs) auto

lemma totalSeverity_nonneg: "0 \<le> totalSeverity post"
  using spamRules_positive sum_list_filter_nonneg by (simp add: totalSeverity_sum)

lemma totalSeverity_pos_triggered: "0 < totalSeverity post \<Longrightarrow> triggeredRules post \<noteq> []"
  using sum_list_filter_pos [of "\<lambda>rule. check rule post" spamRules]
  by (simp add: totalSeverity_sum triggeredRules_def)

text \<open>The sanitizer brings every confidence into the unit interval.\<close>

lemma parseAIResponse_inUnit: "inUnit (aiConfidence (parseAIResponse response))"
proof (cases response)
  case None
  then show ?thesis by (simp add: parseAIResponse_def fallbackResult_def inUnit_def)
next
  case (Some parsed)
  then show ?thesis
    by (cases "pConfidence parsed")
       (auto simp: parseAIResponse_def inUnit_def Math_max_def Math_min_def orZero_def)
qed

lemma analyzerCall_inUnit: "analyzerCall s post reply = Some a \<Longrightarrow> inUnit (aiConfidence a)"
  using parseAIResponse_inUnit
  by (auto simp: analyzerCall_def analyzeSpam_def split: if_splits ProviderReply.splits)

lemma base_inUnit:
  assumes "0 < thr" and "0 \<le> sev"
  shows "inUnit (Math_min (js_div sev thr) (Fin 1))"
  using assms by (auto simp: inUnit_def Math_min_def js_div_def)

lemma Math_max_inUnit: "inUnit a \<Longrightarrow> inUnit b \<Longrightarrow> inUnit (Math_max a b)"
  by (cases a; cases b) (auto simp: inUnit_def Math_max_def)

lemma js_gt_08_07: "js_gt c (Fin 0.8) \<Longrightarrow> js_gt c (Fin 0.7)"
  by (cases c) (auto simp: js_gt_def)

lemma validatePost_reasons:
  "\<not> isValid (validatePost cfg post) \<Longrightarrow> validationReasons (validatePost cfg post) \<noteq> []"
  by (simp add: validatePost_def Let_def)

lemma textRejected_invalid: "textRejected cfg post \<longleftrightarrow> \<not> isValid (validatePost cfg post)"
  by (auto simp: textRejected_def validatePost_def Let_def split: textval.splits)

text \<open>A decision taken at the origin check names the block, and nothing else.\<close>

lemma originCheck_reason:
  assumes "isBlocked (originCheck s post)"
  shows "reason (originCheck s post) = Some (js ''IP address is in blocklist'') \<or>
         (\<exists>rng\<in>set (blockedRanges (ipBlocker s)).
            reason (originCheck s post) = Some (js ''IP address is in blocked range: '' @ rng))"
proof (cases "enableIPBlocking (config s) \<and> truthy (clientIP post)")
  case True
  with assms validateIP_reason [of "ipBlocker s" "the (clientIP post)"] show ?thesis
    by (simp add: originCheck_def)
next
  case False
  with assms show ?thesis by (simp add: originCheck_def notBlocked_def)
qed

lemma blocked_reasons:
  assumes "isBlocked (originCheck s post)"
  shows "reasons (fst (detectSpam s post reply)) = [js ''IP address is in blocklist''] \<or>
         (\<exists>rng\<in>set (blockedRanges (ipBlocker s)).
            reasons (fst (detectSpam s post reply)) = [js ''IP address is in blocked range: '' @ rng])"
proof -
  from originCheck_reason [OF assms] show ?thesis
  proof
    assume "reason (originCheck s post) = Some (js ''IP address is in blocklist'')"
    with assms have "reasons (fst (detectSpam s post reply)) = [js ''IP address is in blocklist'']"
      by (simp add: detectSpam_def Let_def truthy_def js_def)
    then show ?thesis by simp
  next
    assume "\<exists>rng\<in>set (blockedRanges (ipBlocker s)).
              reason (originCheck s post) = Some (js ''IP address is in blocked range: '' @ rng)"
    then obtain rng where r: "rng \<in> set (blockedRanges (ipBlocker s))"
        "reason (originCheck s post) = Some (js ''IP address is in blocked range: '' @ rng)"
      by blast
    with assms have "reasons (fst (detectSpam s post reply)) = [js ''IP address is in blocked range: '' @ rng]"
      by (simp add: detectSpam_def Let_def truthy_def js_def)
    with r show ?thesis by blast
  qed
qed

text \<open>The two posts the examples below run on, under the ten rules.\<close>

lemmas rule_defs = excessive_caps_def repeated_characters_def isLineTerminator_def
  excessive_emojis_def emojiRegex_def inRanges_def suspicious_urls_def urlRegex_def
  spam_keywords_def spamKeywords_def toLowerCase_def excessive_mentions_def
  excessive_hashtags_def profanity_filter_def profanityWords_def too_short_def trim_def
  isWhiteSpace_def all_numbers_def digit_def testWhole_def js_def capsRegex_def wordClass_def
  js_div_def js_gt_def

lemma text_buy_now: "textOf (plainPost ''buy now'') = [98, 117, 121, 32, 110, 111, 119]"
  by (simp add: textOf_def plainPost_def js_def)

lemma text_hello_world:
  "textOf (plainPost ''hello world'') = [104, 101, 108, 108, 111, 32, 119, 111, 114, 108, 100]"
  by (simp add: textOf_def plainPost_def js_def)

lemma rules_buy_now:
  "map description (triggeredRules (plainPost ''buy now'')) = [js ''Post contains spam keywords'']"
  "totalSeverity (plainPost ''buy now'') = 5"
  by (simp_all add: totalSeverity_def triggeredRules_def spamRules_def rule_defs text_buy_now)

lemma rules_hello_world:
  "map description (triggeredRules (plainPost ''hello world'')) = []"
  "totalSeverity (plainPost ''hello world'') = 0"
  by (simp_all add: totalSeverity_def triggeredRules_def spamRules_def rule_defs text_hello_world)

lemma origin_plainPost: "originCheck s (plainPost t) = notBlocked"
  by (simp add: originCheck_def plainPost_def truthy_def)

lemma valid_buy_now:
  "maxTextLength cfg = 280 \<Longrightarrow> minTextLength cfg = 1 \<Longrightarrow>
   validatePost cfg (plainPost ''buy now'') = \<lparr>isValid = True, validationReasons = []\<rparr>"
  by (simp add: validatePost_def plainPost_def js_def trim_def isWhiteSpace_def)

lemma valid_hello_world:
  "maxTextLength cfg = 280 \<Longrightarrow> minTextLength cfg = 1 \<Longrightarrow>
   validatePost cfg (plainPost ''hello world'') = \<lparr>isValid = True, validationReasons = []\<rparr>"
  by (simp add: validatePost_def plainPost_def js_def trim_def isWhiteSpace_def)

lemmas detector_defs = newSpamDetector_def defaultConfig_def newGeminiSpamDetector_def
  newIPBlocker_def truthy_def isConfigured_def analyzerCall_def analyzeSpam_def
  parseAIResponse_def aiOverrides_def orZero_def Math_min_def Math_max_def js_div_def js_gt_def
  notBlocked_def

lemma too_long_hello_world:
  "maxTextLength cfg = 5 \<Longrightarrow> minTextLength cfg = 1 \<Longrightarrow>
   validatePost cfg (plainPost ''hello world'') =
     \<lparr>isValid = False,
      validationReasons = [js ''Post exceeds maximum length of 5 characters'']\<rparr>"
  by (simp add: validatePost_def plainPost_def exceedsMessage_def number_text_5
        trim_def isWhiteSpace_def js_def)

section \<open>The claims\<close>

text \<open>
  C1. For a post that passes the origin check and validation, when the analyzer gives no
  verdict, or one that does not mark spam with a confidence above 0.8, \<open>detectSpam\<close>
  answers \<open>reject\<close> if the total severity reaches \<open>spamThreshold\<close>, else \<open>flag\<close> if it
  reaches \<open>flagThreshold\<close>, else \<open>allow\<close>; \<open>isSpam\<close> says whether the total severity
  reaches \<open>flagThreshold\<close>; and the total severity is the sum of the severities of the
  rules the post triggers.
\<close>

theorem detectSpam_threshold_action:
  assumes "\<not> isBlocked (originCheck s post)"
      and "isValid (validatePost (config s) post)"
      and "\<not> aiOverrides (analyzerCall s post reply)"
  shows "action (fst (detectSpam s post reply)) =
           (if spamThreshold (config s) \<le> totalSeverity post then Reject
            else if flagThreshold (config s) \<le> totalSeverity post then Flag
            else Allow) \<and>
         isSpam (fst (detectSpam s post reply)) = (flagThreshold (config s) \<le> totalSeverity post) \<and>
         aiAnalysis (fst (detectSpam s post reply)) = analyzerCall s post reply \<and>
         totalSeverity post =
           sum_list (map severity (filter (\<lambda>rule. check rule post) spamRules))"
  using assms by (simp add: detectSpam_def Let_def totalSeverity_sum [symmetric])

theorem detectSpam_threshold_action_witness:
  "\<not> isBlocked (originCheck (plainDetector) (plainPost ''buy now'')) \<and>
   isValid (validatePost (config (plainDetector)) (plainPost ''buy now'')) \<and>
   \<not> aiOverrides (analyzerCall (plainDetector) (plainPost ''buy now'') CallFails) \<and>
   totalSeverity (plainPost ''buy now'') = 5 \<and>
   action (fst (detectSpam (plainDetector) (plainPost ''buy now'') CallFails)) = Flag \<and>
   isSpam (fst (detectSpam (plainDetector) (plainPost ''buy now'') CallFails))"
  using detectSpam_threshold_action
          [of plainDetector "plainPost ''buy now''" CallFails]
  by (simp add: origin_plainPost valid_buy_now rules_buy_now plainDetector_def detector_defs)

text \<open>
  C2. For a post that reaches synthesis with an analyzer verdict that marks spam with a
  confidence above 0.8, \<open>detectSpam\<close> answers \<open>isSpam = true\<close> whatever the total
  severity; the action is \<open>reject\<close> when the analyzer's severity is high (also below
  \<open>spamThreshold\<close>), and otherwise \<open>reject\<close> if the total severity reaches
  \<open>spamThreshold\<close>, else \<open>flag\<close>.
\<close>

theorem detectSpam_analyzer_override:
  assumes "\<not> isBlocked (originCheck s post)"
      and "isValid (validatePost (config s) post)"
      and "analyzerCall s post reply = Some a"
      and "aiIsSpam a"
      and "js_gt (aiConfidence a) (Fin 0.8)"
  shows "isSpam (fst (detectSpam s post reply)) \<and>
         action (fst (detectSpam s post reply)) =
           (if aiSeverity a = High then Reject
            else if spamThreshold (config s) \<le> totalSeverity post then Reject
            else Flag)"
  using assms by (simp add: detectSpam_def Let_def aiOverrides_def)


theorem detectSpam_analyzer_override_witness:
  "\<not> isBlocked (originCheck analyzerOn (plainPost ''hello world'')) \<and>
   isValid (validatePost (config analyzerOn) (plainPost ''hello world'')) \<and>
   analyzerCall analyzerOn (plainPost ''hello world'') highSpamReply = Some highSpamVerdict \<and>
   aiIsSpam highSpamVerdict \<and>
   js_gt (aiConfidence highSpamVerdict) (Fin 0.8) \<and>
   totalSeverity (plainPost ''hello world'') < spamThreshold (config analyzerOn) \<and>
   isSpam (fst (detectSpam analyzerOn (plainPost ''hello world'') highSpamReply)) \<and>
   action (fst (detectSpam analyzerOn (plainPost ''hello world'') highSpamReply)) = Reject"
  using detectSpam_analyzer_override
          [of analyzerOn "plainPost ''hello world''" highSpamReply highSpamVerdict]
  by (simp add: origin_plainPost valid_hello_world rules_hello_world analyzerOn_def
        highSpamReply_def highSpamVerdict_def detector_defs js_def)

text \<open>
  C3, as claimed: for every post, every configuration and every analyzer outcome the
  confidence of the decision lies between 0 and 1. A configuration whose
  \<open>spamThreshold\<close> is negative refutes it: the quotient of the total severity and the
  threshold is only cut off above. (With the threshold 0 and no rule triggered the
  confidence is \<open>NaN\<close>.)
\<close>

theorem confidence_negative_threshold:
  "confidence (fst (detectSpam (newSpamDetector None (\<lambda>c. c\<lparr>spamThreshold := - 1\<rparr>))
                     (plainPost ''buy now'') CallFails)) = Fin (- 5) \<and>
   \<not> inUnit (confidence (fst (detectSpam (newSpamDetector None (\<lambda>c. c\<lparr>spamThreshold := - 1\<rparr>))
                     (plainPost ''buy now'') CallFails)))"
  by (simp add: detectSpam_def origin_plainPost valid_buy_now rules_buy_now detector_defs inUnit_def)

text \<open>
  C3, amended: for every post, every configuration whose \<open>spamThreshold\<close> is positive
  and every analyzer outcome (absent, well-formed or malformed), the confidence of the
  decision lies between 0 and 1.
\<close>

theorem confidence_in_unit:
  assumes "0 < spamThreshold (config s)"
  shows "inUnit (confidence (fst (detectSpam s post reply)))"
proof -
  have b: "inUnit (Math_min (js_div (totalSeverity post) (spamThreshold (config s))) (Fin 1))"
    using assms totalSeverity_nonneg by (rule base_inUnit)
  have one: "inUnit (Fin 1)" by (simp add: inUnit_def)
  show ?thesis
  proof (cases "analyzerCall s post reply")
    case None
    with b one show ?thesis by (simp add: detectSpam_def Let_def)
  next
    case (Some a)
    then have "inUnit (aiConfidence a)" by (rule analyzerCall_inUnit)
    with Some b one show ?thesis
      by (simp add: detectSpam_def Let_def Math_max_inUnit)
  qed
qed

theorem confidence_in_unit_witness:
  "0 < spamThreshold (config analyzerOn) \<and>
   confidence (fst (detectSpam analyzerOn (plainPost ''buy now'') malformedReply)) = Fin 1 \<and>
   inUnit (confidence (fst (detectSpam analyzerOn (plainPost ''buy now'') malformedReply)))"
  using confidence_in_unit [of analyzerOn "plainPost ''buy now''" malformedReply]
  by (simp add: detectSpam_def origin_plainPost valid_buy_now rules_buy_now analyzerOn_def
        malformedReply_def detector_defs js_def)

text \<open>
  C5, as claimed: every post whose text is missing, empty or not a string, or too long,
  or too short once trimmed, is rejected at once with reasons that contain the
  violation messages. A post from a blocked origin refutes the part on the reasons: the
  origin check comes first, and its decision names the block alone.
\<close>

theorem blocked_origin_hides_violation:
  "textRejected (config (plainDetector\<lparr>ipBlocker := snd (addIP newIPBlocker (js ''192.168.1.5''))\<rparr>))
     (postFrom ''192.168.1.5'' Undefined) \<and>
   reasons (fst (detectSpam (plainDetector\<lparr>ipBlocker := snd (addIP newIPBlocker (js ''192.168.1.5''))\<rparr>)
                  (postFrom ''192.168.1.5'' Undefined) CallFails))
     = [js ''IP address is in blocklist''] \<and>
   requiredMessage \<notin> set (reasons (fst (detectSpam
        (plainDetector\<lparr>ipBlocker := snd (addIP newIPBlocker (js ''192.168.1.5''))\<rparr>)
        (postFrom ''192.168.1.5'' Undefined) CallFails)))"
  using valid_192_168_1_5
  by (simp add: textRejected_def postFrom_def detectSpam_def originCheck_def validateIP_def
        addIP_def plainDetector_def requiredMessage_def detector_defs js_def)

text \<open>
  C5, amended: every post whose text is missing, empty or not a string, or longer than
  \<open>maxTextLength\<close>, or shorter than \<open>minTextLength\<close> once trimmed, gets at once (no rule
  and no analyzer runs, whatever the provider would answer) the action \<open>reject\<close>,
  \<open>isSpam = true\<close> and the confidence 1.0. When the origin check does not block the
  post, the reasons are the violation messages: the message that a text is required for
  a missing, empty or non-string text, the length-exceeded message for an over-long
  text, the below-minimum message for a text too short once trimmed. When the origin
  check blocks the post, the reasons are the block reason alone: that the address is in
  the blocklist, or that it is in a blocked range of the blocklist, which is named.
\<close>

theorem validation_rejects:
  assumes "textRejected (config s) post"
  shows "action (fst (detectSpam s post reply)) = Reject \<and>
         isSpam (fst (detectSpam s post reply)) \<and>
         confidence (fst (detectSpam s post reply)) = Fin 1 \<and>
         aiAnalysis (fst (detectSpam s post reply)) = None \<and>
         detectSpam s post reply = detectSpam s post reply' \<and>
         (\<not> isBlocked (originCheck s post) \<longrightarrow>
            reasons (fst (detectSpam s post reply)) = validationReasons (validatePost (config s) post) \<and>
            reasons (fst (detectSpam s post reply)) \<noteq> [] \<and>
            ((\<forall>t. post_text post \<noteq> Str t) \<or> post_text post = Str [] \<longrightarrow>
               reasons (fst (detectSpam s post reply)) = [requiredMessage]) \<and>
            (\<forall>t. post_text post = Str t \<and> t \<noteq> [] \<and> maxTextLength (config s) < int (length t) \<longrightarrow>
               exceedsMessage (maxTextLength (config s)) \<in> set (reasons (fst (detectSpam s post reply)))) \<and>
            (\<forall>t. post_text post = Str t \<and> t \<noteq> [] \<and> int (length (trim t)) < minTextLength (config s) \<longrightarrow>
               belowMessage (minTextLength (config s)) \<in> set (reasons (fst (detectSpam s post reply))))) \<and>
         (isBlocked (originCheck s post) \<longrightarrow>
            reasons (fst (detectSpam s post reply)) = [js ''IP address is in blocklist''] \<or>
            (\<exists>rng\<in>set (blockedRanges (ipBlocker s)).
               reasons (fst (detectSpam s post reply)) =
                 [js ''IP address is in blocked range: '' @ rng]))"
proof -
  from assms have inv: "\<not> isValid (validatePost (config s) post)"
    by (simp add: textRejected_invalid)
  then have ne: "validationReasons (validatePost (config s) post) \<noteq> []"
    by (rule validatePost_reasons)
  have early: "action (fst (detectSpam s post reply)) = Reject \<and>
         isSpam (fst (detectSpam s post reply)) \<and>
         confidence (fst (detectSpam s post reply)) = Fin 1 \<and>
         aiAnalysis (fst (detectSpam s post reply)) = None \<and>
         detectSpam s post reply = detectSpam s post reply'"
    using inv by (simp add: detectSpam_def Let_def)
  have rs: "\<not> isBlocked (originCheck s post) \<Longrightarrow>
        reasons (fst (detectSpam s post reply)) = validationReasons (validatePost (config s) post)"
    using inv by (simp add: detectSpam_def Let_def)
  have req: "(\<forall>t. post_text post \<noteq> Str t) \<or> post_text post = Str [] \<Longrightarrow>
        validationReasons (validatePost (config s) post) = [requiredMessage]"
    by (cases "post_text post") (auto simp: validatePost_def Let_def)
  have exc: "\<And>t. post_text post = Str t \<Longrightarrow> t \<noteq> [] \<Longrightarrow> maxTextLength (config s) < int (length t) \<Longrightarrow>
        exceedsMessage (maxTextLength (config s)) \<in> set (validationReasons (validatePost (config s) post))"
    by (simp add: validatePost_def Let_def)
  have bel: "\<And>t. post_text post = Str t \<Longrightarrow> t \<noteq> [] \<Longrightarrow> int (length (trim t)) < minTextLength (config s) \<Longrightarrow>
        belowMessage (minTextLength (config s)) \<in> set (validationReasons (validatePost (config s) post))"
    by (simp add: validatePost_def Let_def)
  have open_origin: "\<not> isBlocked (originCheck s post) \<longrightarrow>
            reasons (fst (detectSpam s post reply)) = validationReasons (validatePost (config s) post) \<and>
            reasons (fst (detectSpam s post reply)) \<noteq> [] \<and>
            ((\<forall>t. post_text post \<noteq> Str t) \<or> post_text post = Str [] \<longrightarrow>
               reasons (fst (detectSpam s post reply)) = [requiredMessage]) \<and>
            (\<forall>t. post_text post = Str t \<and> t \<noteq> [] \<and> maxTextLength (config s) < int (length t) \<longrightarrow>
               exceedsMessage (maxTextLength (config s)) \<in> set (reasons (fst (detectSpam s post reply)))) \<and>
            (\<forall>t. post_text post = Str t \<and> t \<noteq> [] \<and> int (length (trim t)) < minTextLength (config s) \<longrightarrow>
               belowMessage (minTextLength (config s)) \<in> set (reasons (fst (detectSpam s post reply))))"
    using ne rs req exc bel by metis
  have blocked: "isBlocked (originCheck s post) \<longrightarrow>
            reasons (fst (detectSpam s post reply)) = [js ''IP address is in blocklist''] \<or>
            (\<exists>rng\<in>set (blockedRanges (ipBlocker s)).
               reasons (fst (detectSpam s post reply)) =
                 [js ''IP address is in blocked range: '' @ rng])"
    using blocked_reasons by blast
  show ?thesis
    using early open_origin blocked by blast
qed

theorem validation_rejects_witness:
  "textRejected (config (newSpamDetector None (\<lambda>c. c\<lparr>maxTextLength := 5\<rparr>))) (plainPost ''hello world'') \<and>
   \<not> isBlocked (originCheck (newSpamDetector None (\<lambda>c. c\<lparr>maxTextLength := 5\<rparr>)) (plainPost ''hello world'')) \<and>
   action (fst (detectSpam (newSpamDetector None (\<lambda>c. c\<lparr>maxTextLength := 5\<rparr>))
                  (plainPost ''hello world'') CallFails)) = Reject \<and>
   reasons (fst (detectSpam (newSpamDetector None (\<lambda>c. c\<lparr>maxTextLength := 5\<rparr>))
                  (plainPost ''hello world'') CallFails))
     = [js ''Post exceeds maximum length of 5 characters'']"
  using validation_rejects [of "newSpamDetector None (\<lambda>c. c\<lparr>maxTextLength := 5\<rparr>)"
          "plainPost ''hello world''" CallFails CallFails]
  by (simp add: textRejected_invalid detectSpam_def origin_plainPost too_long_hello_world
        detector_defs Let_def js_def)

text \<open>
  C7, as claimed: for every post, every configuration and every analyzer outcome, a
  decision with \<open>isSpam = true\<close> has a reason. A configuration whose \<open>flagThreshold\<close>
  is 0 refutes it: a post that triggers no rule reaches the threshold with the total
  severity 0, and is spam with no reason.
\<close>

theorem spam_without_reason:
  "isSpam (fst (detectSpam (newSpamDetector None (\<lambda>c. c\<lparr>flagThreshold := 0\<rparr>))
                 (plainPost ''hello world'') CallFails)) \<and>
   reasons (fst (detectSpam (newSpamDetector None (\<lambda>c. c\<lparr>flagThreshold := 0\<rparr>))
                  (plainPost ''hello world'') CallFails)) = []"
  by (simp add: detectSpam_def origin_plainPost valid_hello_world rules_hello_world detector_defs)

text \<open>
  C7, amended: for every post, every configuration whose \<open>flagThreshold\<close> is positive
  and every analyzer outcome, a decision with \<open>isSpam = true\<close> has a non-empty list of
  reasons.
\<close>

theorem spam_has_reason:
  assumes "0 < flagThreshold (config s)"
  shows "isSpam (fst (detectSpam s post reply)) \<longrightarrow> reasons (fst (detectSpam s post reply)) \<noteq> []"
proof (cases "isBlocked (originCheck s post)")
  case True
  then show ?thesis by (simp add: detectSpam_def Let_def)
next
  case nb: False
  show ?thesis
  proof (cases "isValid (validatePost (config s) post)")
    case False
    then have "validationReasons (validatePost (config s) post) \<noteq> []"
      by (rule validatePost_reasons)
    with nb False show ?thesis by (simp add: detectSpam_def Let_def)
  next
    case True
    show ?thesis
    proof (cases "aiOverrides (analyzerCall s post reply)")
      case ov: True
      then obtain a where a: "analyzerCall s post reply = Some a" "aiIsSpam a"
          "js_gt (aiConfidence a) (Fin 0.8)"
        by (auto simp: aiOverrides_def split: option.splits)
      then have "js_gt (aiConfidence a) (Fin 0.7)" using js_gt_08_07 by blast
      with nb True a show ?thesis by (simp add: detectSpam_def Let_def)
    next
      case False
      show ?thesis
      proof
        assume "isSpam (fst (detectSpam s post reply))"
        with nb True False have "flagThreshold (config s) \<le> totalSeverity post"
          by (simp add: detectSpam_def Let_def)
        with assms have "0 < totalSeverity post" by simp
        then have "triggeredRules post \<noteq> []" by (rule totalSeverity_pos_triggered)
        with nb True show "reasons (fst (detectSpam s post reply)) \<noteq> []"
          by (simp add: detectSpam_def Let_def)
      qed
    qed
  qed
qed

theorem spam_has_reason_witness:
  "0 < flagThreshold (config plainDetector) \<and>
   isSpam (fst (detectSpam plainDetector (plainPost ''buy now'') CallFails)) \<and>
   reasons (fst (detectSpam plainDetector (plainPost ''buy now'') CallFails)) \<noteq> []"
  using spam_has_reason [of plainDetector "plainPost ''buy now''" CallFails]
  by (simp add: detectSpam_def origin_plainPost valid_buy_now rules_buy_now plainDetector_def
        detector_defs)

text \<open>
  C8, as claimed: for every blocklist and every valid address, the address is blocked
  right after it is added, and not blocked right after it is removed again. A blocklist
  with a range that holds the address refutes the second half: the range still blocks it.
\<close>

theorem removed_address_still_in_range:
  "isValidIP (js ''192.168.1.5'') \<and>
   fst (addIP (snd (addRange newIPBlocker (js ''192.168.1.0/24''))) (js ''192.168.1.5'')) \<and>
   fst (removeIP (snd (addIP (snd (addRange newIPBlocker (js ''192.168.1.0/24'')))
                         (js ''192.168.1.5''))) (js ''192.168.1.5'')) \<and>
   isBlocked (validateIP
     (snd (removeIP (snd (addIP (snd (addRange newIPBlocker (js ''192.168.1.0/24'')))
                            (js ''192.168.1.5''))) (js ''192.168.1.5'')))
     (js ''192.168.1.5''))"
  using valid_192_168_1_5 cidr_slash_24 range_24_holds_5
  by (simp add: validateIP_blocked_iff addIP_def removeIP_def addRange_def newIPBlocker_def)

text \<open>
  C8, amended: for every blocklist and every valid address, adding the address returns
  true and the address is blocked right after; removing it then returns true, and right
  after that the address is not blocked, provided that no range of the blocklist matches
  it in the range test of \<open>check\<close>.
\<close>

theorem add_then_remove_address:
  assumes "isValidIP ip"
  shows "fst (addIP bl ip) \<and>
         isBlocked (validateIP (snd (addIP bl ip)) ip) \<and>
         fst (removeIP (snd (addIP bl ip)) ip) \<and>
         (\<not> (\<exists>r\<in>set (blockedRanges bl). isIPInRange ip r) \<longrightarrow>
            \<not> isBlocked (validateIP (snd (removeIP (snd (addIP bl ip)) ip)) ip))"
  using assms by (simp add: validateIP_blocked_iff addIP_def removeIP_def)

theorem add_then_remove_address_witness:
  "isValidIP (js ''192.168.2.1'') \<and>
   blockedRanges (snd (addRange newIPBlocker (js ''192.168.1.0/24''))) = [js ''192.168.1.0/24''] \<and>
   \<not> isIPInRange (js ''192.168.2.1'') (js ''192.168.1.0/24'') \<and>
   fst (addIP (snd (addRange newIPBlocker (js ''192.168.1.0/24''))) (js ''192.168.2.1'')) \<and>
   isBlocked (validateIP
     (snd (addIP (snd (addRange newIPBlocker (js ''192.168.1.0/24''))) (js ''192.168.2.1'')))
     (js ''192.168.2.1'')) \<and>
   fst (removeIP (snd (addIP (snd (addRange newIPBlocker (js ''192.168.1.0/24'')))
                         (js ''192.168.2.1''))) (js ''192.168.2.1'')) \<and>
   \<not> isBlocked (validateIP
         (snd (removeIP (snd (addIP (snd (addRange newIPBlocker (js ''192.168.1.0/24'')))
                                (js ''192.168.2.1''))) (js ''192.168.2.1'')))
         (js ''192.168.2.1''))"
proof -
  have rs: "blockedRanges (snd (addRange newIPBlocker (js ''192.168.1.0/24''))) = [js ''192.168.1.0/24'']"
    using cidr_slash_24 by (simp add: addRange_def newIPBlocker_def)
  show ?thesis
    using add_then_remove_address
            [of "js ''192.168.2.1''" "snd (addRange newIPBlocker (js ''192.168.1.0/24''))"]
          valid_192_168_2_1 range_24_misses_2_1 rs
    by simp
qed

text \<open>
  C4. For a valid IPv4 address and a valid IPv4 range of the blocklist, \<open>check\<close> is to
  report the address blocked exactly when address and network agree under the mask whose
  top \<open>prefix\<close> bits are ones; so a range of prefix length 0 holds every address. The
  code computes that mask for the prefix lengths 1 to 32 (\<open>isIPv4InRange_topBits\<close>), and
  blocks 192.168.1.1 and 192.168.1.254 but not 192.168.2.1 under 192.168.1.0/24. For the
  prefix length 0 its mask is all ones, and the range 0.0.0.0/0 does not hold 1.2.3.4,
  though the two agree under the mask of no bits.
\<close>

theorem slash_zero_range_misses:
  "isValidIP (js ''1.2.3.4'') \<and>
   isValidCIDR (js ''0.0.0.0/0'') \<and>
   blockedRanges (snd (addRange newIPBlocker (js ''0.0.0.0/0''))) = [js ''0.0.0.0/0''] \<and>
   \<not> isBlocked (validateIP (snd (addRange newIPBlocker (js ''0.0.0.0/0''))) (js ''1.2.3.4'')) \<and>
   (ipv4ToNumber (js ''1.2.3.4'') AND topBitsMask 0) = (ipv4ToNumber (js ''0.0.0.0'') AND topBitsMask 0) \<and>
   prefixMask (Some 0) = - 1"
  using valid_1_2_3_4 cidr_slash_0 range_0_misses
  by (simp add: validateIP_blocked_iff addRange_def newIPBlocker_def topBitsMask_zero
        prefixMask_zero)

text \<open>
  C6. \<open>validateRange\<close> is to accept a text exactly when it splits at the slash into two
  parts, the first a valid address, the second an integer from 0 to 32 (with a dot in
  the address) or 0 to 128. The code rejects 192.168.1.0/33 and 192.168.1.0
  (\<open>cidr_slash_33\<close>, \<open>cidr_no_slash\<close>), but it reads the prefix with \<open>parseInt\<close>, which
  stops at the first code unit that is no digit: the prefix part \<open>2x\<close> is no integer,
  and 192.168.1.0/2x is accepted.
\<close>

theorem isValidCIDR_trailing_garbage:
  "parseInt (js ''2x'') = Some 2 \<and> isValidCIDR (js ''192.168.1.0/2x'')"
  using valid_192_168_1_0 by (simp add: isValidCIDR_def parse_defs js_def)

text \<open>
  C9. Membership in the set of exact addresses is to be case-normalized. The code stores
  and looks up the text as it is given: after the upper-case spelling of an IPv6 address
  is added, its lower-case spelling, which is valid and is the lower case of what was
  added, is not blocked. The comparison against ranges does lower the case: the same
  upper-case spelling entered as a range of prefix length 128 blocks the lower-case one.
\<close>

theorem exact_match_case_sensitive:
  "isValidIP (js ''2001:0DB8:85A3:0000:0000:8A2E:0370:7334'') \<and>
   isValidIP (js ''2001:0db8:85a3:0000:0000:8a2e:0370:7334'') \<and>
   toLowerCase (js ''2001:0DB8:85A3:0000:0000:8A2E:0370:7334'') =
     js ''2001:0db8:85a3:0000:0000:8a2e:0370:7334'' \<and>
   fst (addIP newIPBlocker (js ''2001:0DB8:85A3:0000:0000:8A2E:0370:7334'')) \<and>
   \<not> isBlocked (validateIP (snd (addIP newIPBlocker (js ''2001:0DB8:85A3:0000:0000:8A2E:0370:7334'')))
         (js ''2001:0db8:85a3:0000:0000:8a2e:0370:7334'')) \<and>
   isBlocked (validateIP
     (snd (addRange newIPBlocker (js ''2001:0DB8:85A3:0000:0000:8A2E:0370:7334/128'')))
     (js ''2001:0db8:85a3:0000:0000:8a2e:0370:7334''))"
proof -
  have low: "toLowerCase (js ''2001:0DB8:85A3:0000:0000:8A2E:0370:7334'') =
     js ''2001:0db8:85a3:0000:0000:8a2e:0370:7334''"
    by (simp add: toLowerCase_def js_def)
  have ne: "js ''2001:0db8:85a3:0000:0000:8a2e:0370:7334'' \<noteq>
     js ''2001:0DB8:85A3:0000:0000:8A2E:0370:7334''"
    by (simp add: js_def)
  have cidr: "isValidCIDR (js ''2001:0DB8:85A3:0000:0000:8A2E:0370:7334/128'')"
    using valid_upper by (simp add: isValidCIDR_def parse_defs js_def)
  have rng: "isIPInRange (js ''2001:0db8:85a3:0000:0000:8a2e:0370:7334'')
               (js ''2001:0DB8:85A3:0000:0000:8A2E:0370:7334/128'')"
    by (simp add: isIPInRange_def isIPv6InRange_def expandIPv6_def substring0_def
          toLowerCase_def parse_defs js_def)
  show ?thesis
    using valid_upper valid_lower low ne cidr rng
    by (simp add: validateIP_blocked_iff addIP_def addRange_def newIPBlocker_def)
qed

text \<open>
  C10. \<open>detectSpam\<close> never changes the detector: whatever the post, the starting state
  and the provider's answer, the configuration (both thresholds, both length bounds, the
  IP-blocking flag, the analyzer flag, the analyzer key) and the blocklist (the set of
  exact addresses and the list of ranges) are afterwards what they were before.
\<close>

theorem detectSpam_leaves_detector:
  "snd (detectSpam s post reply) = s \<and>
   config (snd (detectSpam s post reply)) = config s \<and>
   blockedIPs (ipBlocker (snd (detectSpam s post reply))) = blockedIPs (ipBlocker s) \<and>
   blockedRanges (ipBlocker (snd (detectSpam s post reply))) = blockedRanges (ipBlocker s)"
  by (simp add: detectSpam_def Let_def)

end
